theory Spec2Isabelle
  imports Complex_Main "HOL-Library.Sublist"
begin

section \<open>JavaScript strings\<close>

text \<open>
  A JavaScript string is a sequence of UTF-16 code units. The model uses \<^typ>\<open>string\<close>;
  a \<^typ>\<open>char\<close> stands for the code unit of the same number, so the model covers the
  strings whose code units are below 256 (ASCII and the Latin-1 supplement).
\<close>

definition code :: "char \<Rightarrow> nat" where
  "code c = of_char c"

text \<open>\<^verbatim>\<open>String.prototype.toLowerCase\<close> on one code unit below 256: A-Z, and the
  Latin-1 capitals U+00C0..U+00DE without the multiplication sign U+00D7.\<close>

definition lower_char :: "char \<Rightarrow> char" where
  "lower_char c =
     (if (65 \<le> code c \<and> code c \<le> 90) \<or> (192 \<le> code c \<and> code c \<le> 222 \<and> code c \<noteq> 215)
      then char_of (code c + 32) else c)"

definition toLowerCase :: "string \<Rightarrow> string" where
  "toLowerCase s = map lower_char s"

text \<open>The class \<^verbatim>\<open>\s\<close> of a JavaScript regular expression, which is also what
  \<^verbatim>\<open>trim\<close> strips: TAB, LF, VT, FF, CR, space and U+00A0 among the code units below 256.\<close>

definition is_space :: "char \<Rightarrow> bool" where
  "is_space c = (code c \<in> {9, 10, 11, 12, 13, 32, 160})"

definition is_hyphen :: "char \<Rightarrow> bool" where
  "is_hyphen c = (c = CHR ''-'')"

text \<open>The class \<^verbatim>\<open>[a-z0-9\s-]\<close>; the first \<^verbatim>\<open>replace\<close> of \<^verbatim>\<open>generateSlug\<close>
  deletes every character outside it.\<close>

definition slug_keep :: "char \<Rightarrow> bool" where
  "slug_keep c =
     ((97 \<le> code c \<and> code c \<le> 122) \<or> (48 \<le> code c \<and> code c \<le> 57) \<or> is_space c \<or> is_hyphen c)"

text \<open>\<^verbatim>\<open>s.replace(/X+/g, '-')\<close>: every maximal run of characters of the class \<open>X\<close>
  becomes one hyphen.\<close>

function replace_runs :: "(char \<Rightarrow> bool) \<Rightarrow> string \<Rightarrow> string" where
  "replace_runs P [] = []"
| "replace_runs P (c # cs) =
     (if P c then CHR ''-'' # replace_runs P (dropWhile P cs) else c # replace_runs P cs)"
  by pat_completeness auto
termination
  by (relation "measure (\<lambda>(P, s). length s)") (auto simp: le_imp_less_Suc length_dropWhile_le)

definition trim :: "string \<Rightarrow> string" where
  "trim s = rev (dropWhile is_space (rev (dropWhile is_space s)))"

section \<open>The slug generator\<close>

text \<open>
  \<^verbatim>\<open>generateSlug\<close> of \<^verbatim>\<open>server.js\<close> (the same text as \<^verbatim>\<open>BlogAPI.generateSlug\<close>):
  \<^verbatim>\<open>title.toLowerCase().replace(/[^a-z0-9\s-]/g, '').replace(/\s+/g, '-')
       .replace(/-+/g, '-').trim()\<close>
\<close>

definition generateSlug :: "string \<Rightarrow> string" where
  "generateSlug title =
     trim (replace_runs is_hyphen (replace_runs is_space (filter slug_keep (toLowerCase title))))"

section \<open>JavaScript values and numbers\<close>

text \<open>The JSON value of a request field as far as its truthiness goes; \<open>JUndefined\<close> is an
  absent field.\<close>

datatype jsval = JUndefined | JNull | JBool bool | JNum int | JStr string

fun truthy :: "jsval \<Rightarrow> bool" where
  "truthy JUndefined = False"
| "truthy JNull = False"
| "truthy (JBool b) = b"
| "truthy (JNum n) = (n \<noteq> 0)"
| "truthy (JStr s) = (s \<noteq> [])"

text \<open>A string that may be absent, tested as in \<^verbatim>\<open>if (search)\<close>: absent and empty are falsy.\<close>

fun truthy_str :: "string option \<Rightarrow> bool" where
  "truthy_str None = False"
| "truthy_str (Some s) = (s \<noteq> [])"

text \<open>The numbers that \<^verbatim>\<open>Math.ceil(total / pageSize)\<close> can produce from two integers:
  an integer, \<^verbatim>\<open>Infinity\<close> (a positive total over 0) or \<^verbatim>\<open>NaN\<close> (0 over 0). The sign of
  zero is not modelled (\<^verbatim>\<open>-0 === 0\<close>). The quotient is taken exactly: below \<open>2^53\<close> the
  rounding of the floating-point division never reaches the next integer, so the ceiling
  is the same.\<close>

datatype jsnum = Num int | Infinity | NaN

definition ceil_div :: "int \<Rightarrow> int \<Rightarrow> jsnum" where
  "ceil_div a b =
     (if b = 0 then (if a = 0 then NaN else Infinity)
      else Num \<lceil>rat_of_int a / rat_of_int b\<rceil>)"

text \<open>\<^verbatim>\<open>Array.prototype.slice(start, end)\<close>: a negative index counts from the end, both
  indices are clamped to the array.\<close>

definition js_slice :: "'a list \<Rightarrow> int \<Rightarrow> int \<Rightarrow> 'a list" where
  "js_slice xs start fin =
     (let len = int (length xs);
          k = (if start < 0 then max (len + start) 0 else min start len);
          final = (if fin < 0 then max (len + fin) 0 else min fin len)
      in take (nat (final - k)) (drop (nat k) xs))"

text \<open>\<^verbatim>\<open>String.prototype.includes\<close>: the argument occurs as a contiguous substring.\<close>

definition js_includes :: "string \<Rightarrow> string \<Rightarrow> bool" where
  "js_includes hay needle = sublist needle hay"

section \<open>Posts\<close>

text \<open>
  A post document. \<open>ident\<close> is its identity (the \<^verbatim>\<open>_id\<close> of a stored document, the
  \<^verbatim>\<open>id\<close> of a fixture post), timestamps are milliseconds since the epoch, a null
  \<^verbatim>\<open>published_at\<close> is \<open>None\<close>. \<^verbatim>\<open>excerpt\<close> and \<^verbatim>\<open>tags\<close> are optional in the
  \<^verbatim>\<open>BlogPost\<close> interface.
\<close>

record post =
  ident :: nat
  title :: string
  slug :: string
  content :: string
  excerpt :: "string option"
  featured_image :: string
  tags :: "string list option"
  published :: bool
  published_at :: "int option"
  created_at :: int
  updated_at :: int

record response =
  posts :: "post list"
  total :: int
  page :: int
  pageSize :: int
  totalPages :: jsnum

datatype http_error = Status400 | Status404 | Status500

section \<open>The query engine of the server: GET /api/posts\<close>

subsection \<open>The database's regular expressions\<close>

text \<open>
  The server hands the search text to the database as the pattern of a \<^verbatim>\<open>$regex\<close> with
  option \<^verbatim>\<open>i\<close>. The model gives the meaning of the patterns made of ordinary characters
  and the dot (any character but a line feed); a pattern with another operator is left to
  the parameter \<open>pcre\<close>, which returns the pattern's matcher, or \<open>None\<close> when the database
  rejects the pattern.
\<close>

datatype rx_tok = Lit char | Dot

definition rx_meta :: "char \<Rightarrow> bool" where
  "rx_meta c = (c = CHR 0x5C \<or> c \<in> set ''^$.|?*+()[]{}'')"

fun rx_tokens :: "string \<Rightarrow> rx_tok list option" where
  "rx_tokens [] = Some []"
| "rx_tokens (c # cs) =
     (if c = CHR ''.'' then map_option (Cons Dot) (rx_tokens cs)
      else if rx_meta c then None
      else map_option (Cons (Lit c)) (rx_tokens cs))"

fun tok_matches :: "rx_tok \<Rightarrow> char \<Rightarrow> bool" where
  "tok_matches (Lit c) d = (lower_char c = lower_char d)"
| "tok_matches Dot d = (code d \<noteq> 10)"

fun rx_prefix :: "rx_tok list \<Rightarrow> string \<Rightarrow> bool" where
  "rx_prefix [] s = True"
| "rx_prefix (t # ts) [] = False"
| "rx_prefix (t # ts) (d # ds) = (tok_matches t d \<and> rx_prefix ts ds)"

fun rx_search :: "rx_tok list \<Rightarrow> string \<Rightarrow> bool" where
  "rx_search ts [] = rx_prefix ts []"
| "rx_search ts (d # ds) = (rx_prefix ts (d # ds) \<or> rx_search ts ds)"

definition regex_i :: "(string \<Rightarrow> (string \<Rightarrow> bool) option) \<Rightarrow> string \<Rightarrow> (string \<Rightarrow> bool) option" where
  "regex_i pcre pat = (case rx_tokens pat of Some ts \<Rightarrow> Some (rx_search ts) | None \<Rightarrow> pcre pat)"

subsection \<open>The request and the filter\<close>

text \<open>The \<^verbatim>\<open>tags\<close> query parameter: absent, given once (a string) or repeated (an array).\<close>

datatype tags_param = NoTags | OneTag string | ManyTags "string list"

text \<open>\<^verbatim>\<open>req.query\<close>. \<open>q_page\<close> and \<open>q_pageSize\<close> hold the integer that \<^verbatim>\<open>parseInt\<close>
  reads from the parameter, \<open>None\<close> when the parameter is absent (the handler then takes 1
  and 10); a parameter in which \<^verbatim>\<open>parseInt\<close> finds no number is outside the model.\<close>

record posts_query =
  q_page :: "int option"
  q_pageSize :: "int option"
  q_search :: "string option"
  q_tags :: tags_param
  q_published :: "string option"

fun tagArray :: "tags_param \<Rightarrow> string list option" where
  "tagArray NoTags = None"
| "tagArray (OneTag t) = (if t = [] then None else Some [t])"
| "tagArray (ManyTags ts) = Some ts"

definition tags_in :: "string list \<Rightarrow> post \<Rightarrow> bool" where
  "tags_in ts p = (case tags p of None \<Rightarrow> False | Some pts \<Rightarrow> \<exists>t \<in> set ts. t \<in> set pts)"

definition search_or :: "(string \<Rightarrow> bool) \<Rightarrow> post \<Rightarrow> bool" where
  "search_or m p = (m (title p) \<or> m (content p) \<or> (case excerpt p of None \<Rightarrow> False | Some e \<Rightarrow> m e))"

text \<open>The filter document built from the request, as a predicate on posts; \<open>None\<close> when the
  database rejects the search pattern.\<close>

definition build_query :: "(string \<Rightarrow> (string \<Rightarrow> bool) option) \<Rightarrow> posts_query \<Rightarrow> (post \<Rightarrow> bool) option" where
  "build_query pcre q =
     (let by_tags = (case tagArray (q_tags q) of None \<Rightarrow> (\<lambda>p. True) | Some ts \<Rightarrow> tags_in ts);
          by_published = (case q_published q of None \<Rightarrow> (\<lambda>p. True)
                          | Some s \<Rightarrow> (\<lambda>p. published p = (s = ''true'')))
      in if truthy_str (q_search q)
         then (case regex_i pcre (the (q_search q)) of
                 None \<Rightarrow> None
               | Some m \<Rightarrow> Some (\<lambda>p. search_or m p \<and> by_tags p \<and> by_published p))
         else Some (\<lambda>p. by_tags p \<and> by_published p))"

subsection \<open>Sorting, skipping and limiting\<close>

text \<open>The database's order on \<^verbatim>\<open>published_at\<close>: null is below every date.\<close>

fun null_first_less :: "int option \<Rightarrow> int option \<Rightarrow> bool" where
  "null_first_less None None = False"
| "null_first_less None (Some y) = True"
| "null_first_less (Some x) None = False"
| "null_first_less (Some x) (Some y) = (x < y)"

text \<open>\<^verbatim>\<open>sort({ published_at: -1, created_at: -1 })\<close>: \<open>a\<close> may stand before \<open>b\<close>.\<close>

definition sort_before :: "post \<Rightarrow> post \<Rightarrow> bool" where
  "sort_before a b =
     (null_first_less (published_at b) (published_at a)
      \<or> (published_at a = published_at b \<and> created_at b \<le> created_at a))"

fun insert_sorted :: "post \<Rightarrow> post list \<Rightarrow> post list" where
  "insert_sorted x [] = [x]"
| "insert_sorted x (y # ys) = (if sort_before x y then x # y # ys else y # insert_sorted x ys)"

definition sort_posts :: "post list \<Rightarrow> post list" where
  "sort_posts xs = foldr insert_sorted xs []"

text \<open>\<^verbatim>\<open>skip(n).limit(m)\<close>: the database rejects a negative skip; limit 0 is no limit and a
  negative limit is the limit of its absolute value.\<close>

definition skip_limit :: "int \<Rightarrow> int \<Rightarrow> post list \<Rightarrow> http_error + post list" where
  "skip_limit n m xs =
     (if n < 0 then Inl Status500
      else Inr (if m = 0 then drop (nat n) xs else take (nat \<bar>m\<bar>) (drop (nat n) xs)))"

subsection \<open>The handler\<close>

definition get_posts ::
  "(string \<Rightarrow> (string \<Rightarrow> bool) option) \<Rightarrow> post list \<Rightarrow> posts_query \<Rightarrow> http_error + response" where
  "get_posts pcre store q =
     (case build_query pcre q of
        None \<Rightarrow> Inl Status500
      | Some query \<Rightarrow>
          (let matching = filter query store;
               n = int (length matching);
               pageNum = (case q_page q of None \<Rightarrow> 1 | Some v \<Rightarrow> v);
               pageSizeNum = (case q_pageSize q of None \<Rightarrow> 10 | Some v \<Rightarrow> v);
               skip = (pageNum - 1) * pageSizeNum;
               pages = ceil_div n pageSizeNum
           in case skip_limit skip pageSizeNum (sort_posts matching) of
                Inl e \<Rightarrow> Inl e
              | Inr found \<Rightarrow>
                  Inr \<lparr>posts = found, total = n, page = pageNum, pageSize = pageSizeNum,
                       totalPages = pages\<rparr>))"

section \<open>The query engine of the client: BlogAPI.getMockPosts\<close>

datatype js_error = TypeError

record BlogPostQuery =
  mq_page :: "int option"
  mq_pageSize :: "int option"
  mq_search :: "string option"
  mq_tags :: "string list option"

text \<open>The search filter of \<^verbatim>\<open>getMockPosts\<close>, for a search text already lowered.\<close>

definition mock_search :: "string \<Rightarrow> post \<Rightarrow> bool" where
  "mock_search searchLower p =
     (js_includes (toLowerCase (title p)) searchLower
      \<or> js_includes (toLowerCase (content p)) searchLower
      \<or> (truthy_str (excerpt p) \<and> js_includes (toLowerCase (the (excerpt p))) searchLower))"

definition mock_tags :: "string list \<Rightarrow> post \<Rightarrow> bool" where
  "mock_tags ts p = (tags p \<noteq> None \<and> (\<exists>tag \<in> set ts. tag \<in> set (the (tags p))))"

text \<open>
  \<^verbatim>\<open>getMockPosts({ page = 1, pageSize = 10, search, tags }: BlogPostQuery)\<close>. The first
  argument is the value of the local constant \<^verbatim>\<open>mockPosts\<close>; the second is the query
  object, \<open>None\<close> when the method is called without an argument: destructuring
  \<^verbatim>\<open>undefined\<close> throws a TypeError.
\<close>

definition getMockPosts :: "post list \<Rightarrow> BlogPostQuery option \<Rightarrow> js_error + response" where
  "getMockPosts mock arg =
     (case arg of
        None \<Rightarrow> Inl TypeError
      | Some q \<Rightarrow>
          (let pg = (case mq_page q of None \<Rightarrow> 1 | Some v \<Rightarrow> v);
               sz = (case mq_pageSize q of None \<Rightarrow> 10 | Some v \<Rightarrow> v);
               filteredPosts = (if truthy_str (mq_search q)
                                then filter (mock_search (toLowerCase (the (mq_search q)))) mock
                                else mock);
               filteredPosts' = (if mq_tags q \<noteq> None \<and> length (the (mq_tags q)) > 0
                                 then filter (mock_tags (the (mq_tags q))) filteredPosts
                                 else filteredPosts);
               n = int (length filteredPosts');
               pages = ceil_div n sz;
               start = (pg - 1) * sz;
               paginatedPosts = js_slice filteredPosts' start (start + sz)
           in Inr \<lparr>posts = paginatedPosts, total = n, page = pg, pageSize = sz,
                   totalPages = pages\<rparr>))"

text \<open>
  The literal \<^verbatim>\<open>mockPosts\<close>. The three Markdown bodies are long template literals (the
  third holds U+2013, outside the modelled alphabet); they are the parameters
  \<open>body1\<close>, \<open>body2\<close>, \<open>body3\<close>. The dates are \<^verbatim>\<open>new Date('2024-01-15')\<close>,
  \<^verbatim>\<open>'2024-01-10'\<close> and \<^verbatim>\<open>'2024-01-05'\<close> (midnight UTC).
\<close>

definition mockPosts :: "string \<Rightarrow> string \<Rightarrow> string \<Rightarrow> post list" where
  "mockPosts body1 body2 body3 =
     [\<lparr>ident = 1,
       title = ''Getting Started with Modern Web Development'',
       slug = ''getting-started-modern-web-development'',
       content = body1,
       excerpt = Some ''Explore the latest trends and best practices in modern web development, from frontend frameworks to backend technologies.'',
       featured_image = ''https://images.pexels.com/photos/11035380/pexels-photo-11035380.jpeg?auto=compress&cs=tinysrgb&w=1260&h=750&dpr=2'',
       tags = Some [''web development'', ''programming'', ''technology'', ''tutorial''],
       published = True,
       published_at = Some 1705276800000,
       created_at = 1705276800000,
       updated_at = 1705276800000\<rparr>,
      \<lparr>ident = 2,
       title = ''The Art of Database Design'',
       slug = ''art-of-database-design'',
       content = body2,
       excerpt = Some ''Learn the fundamental principles of database design and discover best practices for creating efficient, scalable data architectures.'',
       featured_image = ''https://images.pexels.com/photos/1181677/pexels-photo-1181677.jpeg?auto=compress&cs=tinysrgb&w=1260&h=750&dpr=2'',
       tags = Some [''database'', ''mongodb'', ''sql'', ''design'', ''performance''],
       published = True,
       published_at = Some 1704844800000,
       created_at = 1704844800000,
       updated_at = 1704844800000\<rparr>,
      \<lparr>ident = 3,
       title = ''Building Responsive User Interfaces'',
       slug = ''building-responsive-user-interfaces'',
       content = body3,
       excerpt = Some ''Master the art of creating responsive, accessible user interfaces that provide exceptional user experiences across all devices.'',
       featured_image = ''https://images.pexels.com/photos/196644/pexels-photo-196644.jpeg?auto=compress&cs=tinysrgb&w=1260&h=750&dpr=2'',
       tags = Some [''ui design'', ''responsive'', ''css'', ''accessibility'', ''frontend''],
       published = True,
       published_at = Some 1704412800000,
       created_at = 1704412800000,
       updated_at = 1704412800000\<rparr>]"

section \<open>The client-side proxy\<close>

text \<open>
  What \<^verbatim>\<open>fetch\<close> and \<^verbatim>\<open>response.json()\<close> give: the call fails, or a response arrives
  with a status and a body; the body is \<open>None\<close> when it is not JSON (\<^verbatim>\<open>json()\<close>
  throws). A result \<open>Inl e\<close> of a proxy method is the exception its caller sees.
\<close>

datatype 'a fetch_result = NetworkError | HttpResponse nat "'a option"

definition response_ok :: "nat \<Rightarrow> bool" where
  "response_ok status = (200 \<le> status \<and> status \<le> 299)"

definition getMockAllPosts :: "post list \<Rightarrow> js_error + post list" where
  "getMockAllPosts mock = (case getMockPosts mock None of Inl e \<Rightarrow> Inl e | Inr mockData \<Rightarrow> Inr (posts mockData))"

definition getMockPostBySlug :: "post list \<Rightarrow> string \<Rightarrow> js_error + post option" where
  "getMockPostBySlug mock s =
     (case getMockAllPosts mock of Inl e \<Rightarrow> Inl e | Inr ps \<Rightarrow> Inr (find (\<lambda>p. slug p = s) ps))"

text \<open>\<^verbatim>\<open>getPosts({ page = 1, pageSize = 10, search, tags }: BlogPostQuery = {})\<close>\<close>

definition getPosts :: "post list \<Rightarrow> response fetch_result \<Rightarrow> BlogPostQuery \<Rightarrow> js_error + response" where
  "getPosts mock net q =
     (let pg = (case mq_page q of None \<Rightarrow> 1 | Some v \<Rightarrow> v);
          sz = (case mq_pageSize q of None \<Rightarrow> 10 | Some v \<Rightarrow> v);
          fallback = getMockPosts mock
                       (Some \<lparr>mq_page = Some pg, mq_pageSize = Some sz,
                              mq_search = mq_search q, mq_tags = mq_tags q\<rparr>)
      in case net of
           NetworkError \<Rightarrow> fallback
         | HttpResponse status body \<Rightarrow>
             (if \<not> response_ok status then fallback
              else case body of None \<Rightarrow> fallback | Some r \<Rightarrow> Inr r))"

definition getPostBySlug :: "post list \<Rightarrow> post fetch_result \<Rightarrow> string \<Rightarrow> js_error + post option" where
  "getPostBySlug mock net s =
     (case net of
        NetworkError \<Rightarrow> getMockPostBySlug mock s
      | HttpResponse status body \<Rightarrow>
          (if status = 404 then Inr None
           else if \<not> response_ok status then getMockPostBySlug mock s
           else case body of None \<Rightarrow> getMockPostBySlug mock s | Some p \<Rightarrow> Inr (Some p)))"

definition getAllPosts :: "post list \<Rightarrow> response fetch_result \<Rightarrow> js_error + post list" where
  "getAllPosts mock net =
     (case net of
        NetworkError \<Rightarrow> getMockAllPosts mock
      | HttpResponse status body \<Rightarrow>
          (if \<not> response_ok status then getMockAllPosts mock
           else case body of None \<Rightarrow> getMockAllPosts mock | Some data \<Rightarrow> Inr (posts data)))"

section \<open>The post store of the server\<close>

text \<open>
  The store is the list of the documents of the \<^verbatim>\<open>posts\<close> collection. The collection has
  a unique index on \<^verbatim>\<open>slug\<close> (and on \<^verbatim>\<open>_id\<close>): a write that would break it throws, and
  the handler answers 500.

  \<^verbatim>\<open>req.body\<close>: a text field is \<open>None\<close> when absent; \<open>b_published\<close> keeps the JSON value,
  whose truthiness the handlers test.
\<close>

record post_body =
  b_title :: "string option"
  b_content :: "string option"
  b_excerpt :: "string option"
  b_tags :: "string list option"
  b_featured_image :: "string option"
  b_published :: jsval

definition or_empty :: "string option \<Rightarrow> string" where
  "or_empty v = (if truthy_str v then the v else [])"

text \<open>POST /api/posts. \<open>insertedId\<close> is the identity the driver generates, \<open>now\<close> the one
  \<^verbatim>\<open>new Date()\<close> of the handler. The result is the new store and the post sent back.\<close>

definition create_post :: "post list \<Rightarrow> nat \<Rightarrow> int \<Rightarrow> post_body \<Rightarrow> http_error + post list \<times> post" where
  "create_post store insertedId now body =
     (if \<not> truthy_str (b_title body) \<or> \<not> truthy_str (b_content body) then Inl Status400
      else
        (let pub = (case b_published body of JUndefined \<Rightarrow> JBool False | v \<Rightarrow> v);
             postData = \<lparr>ident = insertedId,
                         title = the (b_title body),
                         slug = generateSlug (the (b_title body)),
                         content = the (b_content body),
                         excerpt = Some (or_empty (b_excerpt body)),
                         featured_image = or_empty (b_featured_image body),
                         tags = Some (case b_tags body of None \<Rightarrow> [] | Some ts \<Rightarrow> ts),
                         published = truthy pub,
                         published_at = (if truthy pub then Some now else None),
                         created_at = now,
                         updated_at = now\<rparr>
         in if slug postData \<in> slug ` set store \<or> insertedId \<in> ident ` set store
            then Inl Status500
            else Inr (store @ [postData], postData)))"

text \<open>The object \<^verbatim>\<open>updateData\<close> of PUT /api/posts/:id; a field is \<open>None\<close> while the object
  has no such property.\<close>

record update_data =
  u_updated_at :: int
  u_title :: "string option"
  u_slug :: "string option"
  u_content :: "string option"
  u_excerpt :: "string option"
  u_tags :: "string list option"
  u_featured_image :: "string option"
  u_published :: "bool option"
  u_published_at :: "int option"

text \<open>The handler builds \<^verbatim>\<open>updateData\<close> from \<^verbatim>\<open>{ updated_at: new Date() }\<close>, one
  \<^verbatim>\<open>if\<close> after the other; \<open>now'\<close> is the second \<^verbatim>\<open>new Date()\<close>, of the publishing
  branch. The test \<^verbatim>\<open>!updateData.published_at\<close> reads the object being built.\<close>

definition build_update :: "int \<Rightarrow> int \<Rightarrow> post_body \<Rightarrow> update_data" where
  "build_update now now' body =
     (let d0 = \<lparr>u_updated_at = now, u_title = None, u_slug = None, u_content = None,
                u_excerpt = None, u_tags = None, u_featured_image = None,
                u_published = None, u_published_at = None\<rparr>;
          d1 = (if truthy_str (b_title body)
                then d0\<lparr>u_title := b_title body, u_slug := Some (generateSlug (the (b_title body)))\<rparr>
                else d0);
          d2 = (if b_content body \<noteq> None then d1\<lparr>u_content := b_content body\<rparr> else d1);
          d3 = (if b_excerpt body \<noteq> None then d2\<lparr>u_excerpt := b_excerpt body\<rparr> else d2);
          d4 = (if b_tags body \<noteq> None then d3\<lparr>u_tags := b_tags body\<rparr> else d3);
          d5 = (if b_featured_image body \<noteq> None
                then d4\<lparr>u_featured_image := b_featured_image body\<rparr> else d4)
      in if b_published body \<noteq> JUndefined
         then (let d6 = d5\<lparr>u_published := Some (truthy (b_published body))\<rparr>
               in if truthy (b_published body) \<and> u_published_at d6 = None
                  then d6\<lparr>u_published_at := Some now'\<rparr> else d6)
         else d5)"

definition or_old :: "'a option \<Rightarrow> 'a \<Rightarrow> 'a" where
  "or_old v old = (case v of None \<Rightarrow> old | Some x \<Rightarrow> x)"

text \<open>\<^verbatim>\<open>{ $set: updateData }\<close> on one document: the properties of \<^verbatim>\<open>updateData\<close>
  replace the document's, the other fields stay.\<close>

definition apply_set :: "update_data \<Rightarrow> post \<Rightarrow> post" where
  "apply_set d p =
     p\<lparr>title := or_old (u_title d) (title p),
       slug := or_old (u_slug d) (slug p),
       content := or_old (u_content d) (content p),
       excerpt := (case u_excerpt d of None \<Rightarrow> excerpt p | Some e \<Rightarrow> Some e),
       featured_image := or_old (u_featured_image d) (featured_image p),
       tags := (case u_tags d of None \<Rightarrow> tags p | Some ts \<Rightarrow> Some ts),
       published := or_old (u_published d) (published p),
       published_at := (case u_published_at d of None \<Rightarrow> published_at p | Some t \<Rightarrow> Some t),
       updated_at := u_updated_at d\<rparr>"

definition findOne :: "post list \<Rightarrow> nat \<Rightarrow> post option" where
  "findOne store oid = find (\<lambda>p. ident p = oid) store"

fun updateOne :: "nat \<Rightarrow> (post \<Rightarrow> post) \<Rightarrow> post list \<Rightarrow> post list" where
  "updateOne oid f [] = []"
| "updateOne oid f (p # ps) = (if ident p = oid then f p # ps else p # updateOne oid f ps)"

fun deleteOne :: "nat \<Rightarrow> post list \<Rightarrow> post list" where
  "deleteOne oid [] = []"
| "deleteOne oid (p # ps) = (if ident p = oid then ps else p # deleteOne oid ps)"

text \<open>PUT /api/posts/:id. \<open>objectId\<close> is the ObjectId the path names, \<open>None\<close> when
  \<^verbatim>\<open>ObjectId.isValid\<close> refuses the text.\<close>

definition update_post ::
  "post list \<Rightarrow> nat option \<Rightarrow> int \<Rightarrow> int \<Rightarrow> post_body \<Rightarrow> http_error + post list \<times> post" where
  "update_post store objectId now now' body =
     (case objectId of
        None \<Rightarrow> Inl Status400
      | Some oid \<Rightarrow>
          (let updateData = build_update now now' body
           in case findOne store oid of
                None \<Rightarrow> Inl Status404
              | Some old \<Rightarrow>
                  (let updatedPost = apply_set updateData old
                   in if \<exists>p \<in> set store. ident p \<noteq> oid \<and> slug p = slug updatedPost
                      then Inl Status500
                      else Inr (updateOne oid (apply_set updateData) store, updatedPost))))"

text \<open>DELETE /api/posts/:id, on the posts collection (the images collection is not part
  of this model).\<close>

definition delete_post :: "post list \<Rightarrow> nat option \<Rightarrow> http_error + post list" where
  "delete_post store objectId =
     (case objectId of
        None \<Rightarrow> Inl Status400
      | Some oid \<Rightarrow>
          (case findOne store oid of
             None \<Rightarrow> Inl Status404
           | Some old \<Rightarrow> Inr (deleteOne oid store)))"

text \<open>The three writing requests, and the store after a request (unchanged when the
  request fails).\<close>

datatype post_op =
    CreatePost nat int post_body
  | UpdatePost "nat option" int int post_body
  | DeletePost "nat option"

fun apply_op :: "post list \<Rightarrow> post_op \<Rightarrow> post list" where
  "apply_op store (CreatePost insertedId now body) =
     (case create_post store insertedId now body of Inl e \<Rightarrow> store | Inr (store', p) \<Rightarrow> store')"
| "apply_op store (UpdatePost objectId now now' body) =
     (case update_post store objectId now now' body of Inl e \<Rightarrow> store | Inr (store', p) \<Rightarrow> store')"
| "apply_op store (DeletePost objectId) =
     (case delete_post store objectId of Inl e \<Rightarrow> store | Inr store' \<Rightarrow> store')"

definition run_ops :: "post list \<Rightarrow> post_op list \<Rightarrow> post list" where
  "run_ops store ops = foldl apply_op store ops"

section \<open>Vocabulary of the properties\<close>

text \<open>The characters a slug is made of: \<^verbatim>\<open>a-z\<close>, \<^verbatim>\<open>0-9\<close> and the hyphen.\<close>

definition slug_char :: "char \<Rightarrow> bool" where
  "slug_char c = ((97 \<le> code c \<and> code c \<le> 122) \<or> (48 \<le> code c \<and> code c \<le> 57) \<or> c = CHR ''-'')"

text \<open>The slug before the final \<^verbatim>\<open>trim()\<close>.\<close>

definition pre_trim :: "string \<Rightarrow> string" where
  "pre_trim t = replace_runs is_hyphen (replace_runs is_space (filter slug_keep (toLowerCase t)))"

text \<open>Sample data: a request body with no field, and a published post as the store holds it.\<close>

definition no_fields :: post_body where
  "no_fields = \<lparr>b_title = None, b_content = None, b_excerpt = None, b_tags = None,
                b_featured_image = None, b_published = JUndefined\<rparr>"

definition stored_post :: post where
  "stored_post = \<lparr>ident = 7, title = ''Hello'', slug = ''hello'', content = ''text'',
                  excerpt = Some [], featured_image = [], tags = Some [], published = True,
                  published_at = Some 1000, created_at = 1000, updated_at = 1000\<rparr>"

text \<open>The order the specification asks of a result: \<open>a\<close> may be listed before \<open>b\<close> when
  \<open>a\<close> was published later, or at the same time and created no earlier; a post without
  \<^verbatim>\<open>published_at\<close> comes after every post with one, and two such posts go by
  \<^verbatim>\<open>created_at\<close>.\<close>

definition listed_before :: "post \<Rightarrow> post \<Rightarrow> bool" where
  "listed_before a b =
     (case published_at a of
        None \<Rightarrow> published_at b = None \<and> created_at b \<le> created_at a
      | Some x \<Rightarrow>
          (case published_at b of
             None \<Rightarrow> True
           | Some y \<Rightarrow> y < x \<or> (y = x \<and> created_at b \<le> created_at a)))"

text \<open>Sample data: a request without parameters, a database that accepts no pattern beyond
  the modelled ones, and three posts published on day 1, day 3 and day 2.\<close>

definition no_params :: posts_query where
  "no_params = \<lparr>q_page = None, q_pageSize = None, q_search = None, q_tags = NoTags,
                q_published = None\<rparr>"

definition no_pcre :: "string \<Rightarrow> (string \<Rightarrow> bool) option" where
  "no_pcre pat = None"

definition day :: "int \<Rightarrow> int" where
  "day n = n * 86400000"

definition post_of_day :: "nat \<Rightarrow> int \<Rightarrow> post" where
  "post_of_day i n = stored_post\<lparr>ident := i, published_at := Some (day n), created_at := day n,
                                 updated_at := day n\<rparr>"

definition mock_defaults :: BlogPostQuery where
  "mock_defaults = \<lparr>mq_page = None, mq_pageSize = None, mq_search = None, mq_tags = None\<rparr>"

text \<open>The specification's search predicate: the search text occurs in the field as a
  substring, letter case apart: some stretch of the field agrees with it character by
  character once both are lowered.\<close>

definition ci_substring :: "string \<Rightarrow> string \<Rightarrow> bool" where
  "ci_substring needle hay =
     (\<exists>pre mid suf. hay = pre @ mid @ suf
        \<and> list_all2 (\<lambda>a b. lower_char a = lower_char b) mid needle)"

definition search_hit :: "string \<Rightarrow> post \<Rightarrow> bool" where
  "search_hit s p =
     (ci_substring s (title p) \<or> ci_substring s (content p)
      \<or> (\<exists>e. excerpt p = Some e \<and> ci_substring s e))"

text \<open>The read of the proxy failed: no response, or a response that is not 2xx.\<close>

fun fetch_failed :: "'a fetch_result \<Rightarrow> bool" where
  "fetch_failed NetworkError = True"
| "fetch_failed (HttpResponse status body) = (\<not> response_ok status)"

section \<open>The slug generator: proofs\<close>

lemma code_hyphen: "code CHR ''-'' = 45"
  by (simp add: code_def)

lemma slug_char_not_space: "slug_char c \<Longrightarrow> \<not> is_space c"
  by (auto simp: slug_char_def is_space_def code_hyphen)

lemma slug_char_keep: "slug_char c \<Longrightarrow> slug_keep c"
  by (auto simp: slug_char_def slug_keep_def is_hyphen_def)

lemma slug_char_lower: "slug_char c \<Longrightarrow> lower_char c = c"
  by (auto simp: slug_char_def lower_char_def code_hyphen)

lemma slug_keep_cases: "slug_keep c \<Longrightarrow> is_space c \<or> slug_char c"
  by (auto simp: slug_char_def slug_keep_def is_hyphen_def)

lemma replace_runs_none: "\<forall>c \<in> set s. \<not> P c \<Longrightarrow> replace_runs P s = s"
  by (induction s) auto

lemma set_replace_runs: "set (replace_runs P s) \<subseteq> {c \<in> set s. \<not> P c} \<union> {CHR ''-''}"
proof (induction P s rule: replace_runs.induct)
  case (1 P)
  then show ?case by simp
next
  case (2 P c cs)
  show ?case
  proof (cases "P c")
    case True
    have "set (dropWhile P cs) \<subseteq> set cs"
      by (rule set_dropWhileD[THEN subsetI])
    with 2(1)[OF True] True show ?thesis by auto
  next
    case False
    with 2(2)[OF False] show ?thesis by auto
  qed
qed

lemma dropWhile_replace_runs:
  "s = [] \<or> \<not> P (hd s) \<Longrightarrow> dropWhile P (replace_runs P s) = replace_runs P s"
  by (cases s) auto

lemma dropWhile_start: "dropWhile P s = [] \<or> \<not> P (hd (dropWhile P s))"
  by (metis hd_dropWhile)

text \<open>Collapsing the runs of a class that holds the hyphen is idempotent: after it, no two
  characters of the class are adjacent.\<close>

lemma replace_runs_idem:
  "P CHR ''-'' \<Longrightarrow> replace_runs P (replace_runs P s) = replace_runs P s"
proof (induction P s rule: replace_runs.induct)
  case (1 P)
  then show ?case by simp
next
  case (2 P c cs)
  show ?case
  proof (cases "P c")
    case True
    have "dropWhile P (replace_runs P (dropWhile P cs)) = replace_runs P (dropWhile P cs)"
      by (rule dropWhile_replace_runs) (rule dropWhile_start)
    with 2(1)[OF True 2(3)] True 2(3) show ?thesis by simp
  next
    case False
    with 2(2)[OF False 2(3)] show ?thesis by simp
  qed
qed

lemma trim_no_space:
  assumes "\<forall>c \<in> set s. \<not> is_space c"
  shows "trim s = s"
proof -
  have lead: "dropWhile is_space s = s"
    using assms by (cases s) auto
  have trail: "dropWhile is_space (rev s) = rev s"
    using assms by (cases "rev s") (auto dest: arg_cong[where f=set])
  show ?thesis by (simp add: trim_def lead trail)
qed

lemma pre_trim_chars: "\<forall>c \<in> set (pre_trim t). slug_char c"
proof
  fix c assume "c \<in> set (pre_trim t)"
  then have "c = CHR ''-'' \<or> c \<in> set (replace_runs is_space (filter slug_keep (toLowerCase t)))"
    using set_replace_runs[of is_hyphen] unfolding pre_trim_def by blast
  then have "c = CHR ''-'' \<or> (c \<in> set (filter slug_keep (toLowerCase t)) \<and> \<not> is_space c)"
    using set_replace_runs[of is_space "filter slug_keep (toLowerCase t)"] by blast
  then show "slug_char c"
    using slug_keep_cases by (auto simp: slug_char_def)
qed

text \<open>When \<^verbatim>\<open>trim()\<close> runs, every white-space character has already become a hyphen:
  the call never removes anything.\<close>

lemma generateSlug_pre_trim: "generateSlug t = pre_trim t"
  unfolding generateSlug_def pre_trim_def[symmetric]
  using pre_trim_chars slug_char_not_space by (intro trim_no_space) blast

lemma generateSlug_chars: "\<forall>c \<in> set (generateSlug t). slug_char c"
  by (simp add: generateSlug_pre_trim pre_trim_chars)

lemma pre_trim_fixed: "pre_trim (pre_trim x) = pre_trim x"
proof -
  let ?y = "pre_trim x"
  have ch: "\<forall>c \<in> set ?y. slug_char c"
    by (rule pre_trim_chars)
  have 1: "toLowerCase ?y = ?y"
    unfolding toLowerCase_def using ch slug_char_lower by (simp add: map_idI)
  have 2: "filter slug_keep ?y = ?y"
    using ch slug_char_keep by (simp add: filter_id_conv)
  have 3: "replace_runs is_space ?y = ?y"
    using ch slug_char_not_space by (intro replace_runs_none) blast
  have 4: "replace_runs is_hyphen ?y = ?y"
    unfolding pre_trim_def by (rule replace_runs_idem) (simp add: is_hyphen_def)
  show ?thesis
    by (subst pre_trim_def) (simp only: 1 2 3 4)
qed

text \<open>
  C7. The claim: \<^verbatim>\<open>generateSlug\<close> trims leading and trailing hyphens and white space, so
  its result never begins or ends with a hyphen. The function on a title with a space
  before and after the word: both spaces become hyphens, and the final \<^verbatim>\<open>trim()\<close>
  finds no white space to remove.
\<close>

theorem generateSlug_keeps_edge_hyphens:
  "generateSlug '' Hello '' = ''-hello-''"
  by code_simp

text \<open>
  C8. \<^verbatim>\<open>generateSlug\<close> is idempotent on every input, maps
  \<^verbatim>\<open>"Hello, World!  2024"\<close> to \<^verbatim>\<open>"hello-world-2024"\<close> and the empty title to the empty
  string.
\<close>

theorem generateSlug_idempotent:
  "generateSlug (generateSlug x) = generateSlug x
   \<and> generateSlug ''Hello, World!  2024'' = ''hello-world-2024''
   \<and> generateSlug [] = []"
proof -
  have idem: "generateSlug (generateSlug x) = generateSlug x"
    by (simp add: generateSlug_pre_trim pre_trim_fixed)
  have ex1: "generateSlug ''Hello, World!  2024'' = ''hello-world-2024''"
    by code_simp
  have ex2: "generateSlug [] = []"
    by code_simp
  from idem ex1 ex2 show ?thesis by simp
qed

section \<open>The post store: proofs\<close>

lemma findOne_append:
  "findOne (xs @ ys) oid = (case findOne xs oid of None \<Rightarrow> findOne ys oid | Some p \<Rightarrow> Some p)"
  unfolding findOne_def by (induction xs) auto

lemma ident_apply_set: "ident (apply_set d p) = ident p"
  by (simp add: apply_set_def)

lemma findOne_updateOne:
  "findOne (updateOne oid' (apply_set d) store) oid =
     (if oid = oid' then map_option (apply_set d) (findOne store oid) else findOne store oid)"
  unfolding findOne_def by (induction store) (auto simp: ident_apply_set)

lemma findOne_deleteOne:
  "oid \<noteq> oid' \<Longrightarrow> findOne (deleteOne oid' store) oid = findOne store oid"
  unfolding findOne_def by (induction store) auto

lemma apply_set_published_at:
  "published_at p \<noteq> None \<Longrightarrow> published_at (apply_set d p) \<noteq> None"
  by (simp add: apply_set_def split: option.splits)

lemma unpublish_keeps_published_at:
  "\<not> truthy (b_published body) \<Longrightarrow>
     published_at (apply_set (build_update now now' body) p) = published_at p"
  by (simp add: apply_set_def build_update_def Let_def)

lemma create_keeps:
  assumes "findOne store oid = Some p"
  shows "findOne (apply_op store (CreatePost i now body)) oid = Some p"
  using assms by (auto simp: create_post_def Let_def findOne_append split: if_splits)

lemma update_keeps:
  assumes "findOne store oid = Some p" and "published_at p \<noteq> None"
  shows "\<exists>p'. findOne (apply_op store (UpdatePost objectId now now' body)) oid = Some p'
           \<and> published_at p' \<noteq> None"
proof (cases "update_post store objectId now now' body")
  case (Inl e)
  with assms show ?thesis by simp
next
  case (Inr r)
  then obtain oid' where o: "objectId = Some oid'"
    and r: "r = (updateOne oid' (apply_set (build_update now now' body)) store,
                 apply_set (build_update now now' body) (the (findOne store oid')))"
    by (auto simp: update_post_def Let_def split: option.splits if_splits)
  have "findOne (fst r) oid =
          (if oid = oid' then Some (apply_set (build_update now now' body) p) else Some p)"
    using assms(1) by (auto simp: r findOne_updateOne)
  with Inr assms(2) apply_set_published_at[OF assms(2)] show ?thesis
    by (auto simp: r)
qed

lemma delete_keeps:
  assumes "findOne store oid = Some p" and "objectId \<noteq> Some oid"
  shows "findOne (apply_op store (DeletePost objectId)) oid = Some p"
proof (cases objectId)
  case None
  with assms(1) show ?thesis by (simp add: delete_post_def)
next
  case (Some oid')
  with assms(2) have "oid \<noteq> oid'" by simp
  from findOne_deleteOne[OF this] assms(1) Some show ?thesis
    by (simp add: delete_post_def split: option.splits)
qed

lemma apply_op_keeps:
  assumes "findOne store oid = Some p" and "published_at p \<noteq> None"
    and "op \<noteq> DeletePost (Some oid)"
  shows "\<exists>p'. findOne (apply_op store op) oid = Some p' \<and> published_at p' \<noteq> None"
proof (cases op)
  case (CreatePost i now body)
  with create_keeps[OF assms(1)] assms(2) show ?thesis by simp
next
  case (UpdatePost objectId now now' body)
  with update_keeps[OF assms(1,2)] show ?thesis by simp
next
  case (DeletePost objectId)
  with assms(3) have "objectId \<noteq> Some oid" by simp
  from delete_keeps[OF assms(1) this] DeletePost assms(2) show ?thesis by simp
qed

text \<open>
  C6. \<^verbatim>\<open>published_at\<close> is never cleared: a post whose \<^verbatim>\<open>published_at\<close> is set keeps a
  set \<^verbatim>\<open>published_at\<close> through every sequence of create, update and delete requests (as
  long as the post itself is not deleted), whatever the requests carry; an update that
  unpublishes it is one of them.
\<close>

theorem published_at_never_cleared:
  assumes "findOne store oid = Some p" and "published_at p \<noteq> None"
    and "DeletePost (Some oid) \<notin> set ops"
  shows "\<exists>p'. findOne (run_ops store ops) oid = Some p' \<and> published_at p' \<noteq> None"
  using assms
proof (induction ops arbitrary: store p)
  case Nil
  then show ?case by (simp add: run_ops_def)
next
  case (Cons op ops)
  from Cons.prems(3) have ne: "op \<noteq> DeletePost (Some oid)" and rest: "DeletePost (Some oid) \<notin> set ops"
    by auto
  from apply_op_keeps[OF Cons.prems(1,2) ne]
  obtain q where q: "findOne (apply_op store op) oid = Some q" "published_at q \<noteq> None"
    by blast
  from Cons.IH[OF q rest] show ?case by (simp add: run_ops_def)
qed

theorem published_at_never_cleared_witness:
  "(\<exists>p'. findOne (run_ops [stored_post]
            [UpdatePost (Some 7) 2000 2001 (no_fields\<lparr>b_published := JBool False\<rparr>)]) 7 = Some p'
          \<and> published_at p' \<noteq> None)
   \<and> map_option published (findOne (run_ops [stored_post]
            [UpdatePost (Some 7) 2000 2001 (no_fields\<lparr>b_published := JBool False\<rparr>)]) 7) = Some False"
proof -
  have 1: "findOne [stored_post] 7 = Some stored_post"
    by (simp add: findOne_def stored_post_def)
  have 2: "published_at stored_post \<noteq> None"
    by (simp add: stored_post_def)
  have 3: "DeletePost (Some 7) \<notin> set [UpdatePost (Some 7) 2000 2001 (no_fields\<lparr>b_published := JBool False\<rparr>)]"
    by simp
  have 4: "map_option published (findOne (run_ops [stored_post]
            [UpdatePost (Some 7) 2000 2001 (no_fields\<lparr>b_published := JBool False\<rparr>)]) 7) = Some False"
    by (simp add: run_ops_def update_post_def findOne_def stored_post_def no_fields_def
          build_update_def apply_set_def or_old_def Let_def)
  from published_at_never_cleared[OF 1 2 3] 4 show ?thesis by simp
qed

text \<open>
  C10. A post that POST /api/posts creates has a \<^verbatim>\<open>published_at\<close> exactly when it is
  published, and \<^verbatim>\<open>created_at\<close>, \<^verbatim>\<open>updated_at\<close> and, when published,
  \<^verbatim>\<open>published_at\<close> are the one timestamp \<open>now\<close> of the request.
\<close>

theorem create_post_stamps:
  assumes "create_post store insertedId now body = Inr (store', p)"
  shows "(published_at p \<noteq> None \<longleftrightarrow> published p)
         \<and> created_at p = now \<and> updated_at p = now
         \<and> (published p \<longrightarrow> published_at p = Some now)
         \<and> store' = store @ [p]"
  using assms by (auto simp: create_post_def Let_def split: if_splits)

theorem create_post_stamps_witness:
  "create_post [] 7 1000 (no_fields\<lparr>b_title := Some ''Hello'', b_content := Some ''text'',
       b_published := JBool True\<rparr>) = Inr ([stored_post], stored_post)
   \<and> published stored_post \<and> published_at stored_post = Some 1000
   \<and> created_at stored_post = 1000 \<and> updated_at stored_post = 1000"
proof -
  have ev: "create_post [] 7 1000 (no_fields\<lparr>b_title := Some ''Hello'', b_content := Some ''text'',
       b_published := JBool True\<rparr>) = Inr ([stored_post], stored_post)"
    by code_simp
  from create_post_stamps[OF ev] ev show ?thesis by (simp add: stored_post_def)
qed

text \<open>
  C5. The claim: an update that sets \<^verbatim>\<open>published\<close> to true leaves a \<^verbatim>\<open>published_at\<close>
  that is already set unchanged. The handler on a post published at 1000, updated at 2000
  with \<^verbatim>\<open>{ published: true }\<close>: its test \<^verbatim>\<open>!updateData.published_at\<close> reads the object it
  has just built, which never has the property, so \<^verbatim>\<open>published_at\<close> is stamped again.
\<close>

theorem republish_overwrites_published_at:
  "published_at stored_post = Some 1000
   \<and> update_post [stored_post] (Some 7) 2000 2001 (no_fields\<lparr>b_published := JBool True\<rparr>)
       = Inr ([stored_post\<lparr>published_at := Some 2001, updated_at := 2000\<rparr>],
              stored_post\<lparr>published_at := Some 2001, updated_at := 2000\<rparr>)"
  by (simp add: update_post_def findOne_def stored_post_def no_fields_def
          build_update_def apply_set_def or_old_def Let_def)

section \<open>The query engines: order of the results\<close>

lemma sort_before_listed: "sort_before a b = listed_before a b"
  by (cases "published_at a"; cases "published_at b")
     (auto simp: sort_before_def listed_before_def)

lemma sort_before_total: "\<not> sort_before a b \<Longrightarrow> sort_before b a"
  by (cases "published_at a"; cases "published_at b") (auto simp: sort_before_def)

lemma sort_before_trans: "sort_before a b \<Longrightarrow> sort_before b c \<Longrightarrow> sort_before a c"
  by (cases "published_at a"; cases "published_at b"; cases "published_at c")
     (auto simp: sort_before_def)

lemma set_insert_sorted: "set (insert_sorted x ys) = insert x (set ys)"
  by (induction ys) auto

lemma sorted_insert_sorted:
  "sorted_wrt sort_before ys \<Longrightarrow> sorted_wrt sort_before (insert_sorted x ys)"
proof (induction ys)
  case Nil
  then show ?case by simp
next
  case (Cons y ys)
  show ?case
  proof (cases "sort_before x y")
    case True
    have "\<forall>z \<in> set ys. sort_before x z"
      using Cons.prems True sort_before_trans by auto
    with True Cons.prems show ?thesis by simp
  next
    case False
    then have "sort_before y x" by (rule sort_before_total)
    with False Cons show ?thesis by (auto simp: set_insert_sorted)
  qed
qed

lemma sorted_sort_posts: "sorted_wrt sort_before (sort_posts xs)"
  unfolding sort_posts_def by (induction xs) (auto intro: sorted_insert_sorted)

lemma set_sort_posts: "set (sort_posts xs) = set xs"
  unfolding sort_posts_def by (induction xs) (auto simp: set_insert_sorted)

lemma sorted_skip_limit:
  "sorted_wrt R xs \<Longrightarrow> skip_limit n m xs = Inr ys \<Longrightarrow> sorted_wrt R ys"
  by (auto simp: skip_limit_def sorted_wrt_drop sorted_wrt_take split: if_splits)

lemma sorted_js_slice: "sorted_wrt R xs \<Longrightarrow> sorted_wrt R (js_slice xs a b)"
  by (simp add: js_slice_def Let_def sorted_wrt_drop sorted_wrt_take)

lemma get_posts_sorted:
  assumes "get_posts pcre store q = Inr r"
  shows "sorted_wrt listed_before (posts r)"
proof -
  from assms obtain query n m found where
    f: "skip_limit n m (sort_posts (filter query store)) = Inr found"
    and r: "posts r = found"
    by (auto simp: get_posts_def Let_def split: option.splits sum.splits)
  have "sorted_wrt sort_before found"
    using sorted_skip_limit[OF sorted_sort_posts f] .
  then show ?thesis
    unfolding r using sort_before_listed by (simp add: sorted_wrt_iff_nth_less)
qed

lemma mockPosts_sorted: "sorted_wrt listed_before (mockPosts b1 b2 b3)"
  by (simp add: mockPosts_def listed_before_def)

lemma getMockPosts_sorted:
  assumes "sorted_wrt listed_before mock" and "getMockPosts mock arg = Inr r"
  shows "sorted_wrt listed_before (posts r)"
proof -
  from assms(2) obtain q where arg: "arg = Some q"
    by (auto simp: getMockPosts_def split: option.splits)
  let ?f1 = "if truthy_str (mq_search q)
             then filter (mock_search (toLowerCase (the (mq_search q)))) mock else mock"
  let ?f2 = "if mq_tags q \<noteq> None \<and> length (the (mq_tags q)) > 0
             then filter (mock_tags (the (mq_tags q))) ?f1 else ?f1"
  have "sorted_wrt listed_before ?f1"
    using assms(1) by (simp add: sorted_wrt_filter)
  then have s2: "sorted_wrt listed_before ?f2"
    by (simp add: sorted_wrt_filter)
  from assms(2) obtain a b where "posts r = js_slice ?f2 a b"
    unfolding arg getMockPosts_def by (auto simp: Let_def)
  with sorted_js_slice[OF s2] show ?thesis by simp
qed

lemma nulls_last:
  assumes "sorted_wrt listed_before xs" and "i < j" and "j < length xs"
    and "published_at (xs ! i) = None"
  shows "published_at (xs ! j) = None"
proof -
  from assms(1-3) have "listed_before (xs ! i) (xs ! j)"
    by (simp add: sorted_wrt_iff_nth_less)
  with assms(4) show ?thesis by (simp add: listed_before_def)
qed

lemma ceil_div_eval: "b \<noteq> 0 \<Longrightarrow> ceil_div a b = Num (- (- a div b))"
  by (simp add: ceil_div_def ceiling_divide_eq_div)

lemma example_days:
  "get_posts pcre [post_of_day 11 1, post_of_day 12 3, post_of_day 13 2] no_params
     = Inr \<lparr>posts = [post_of_day 12 3, post_of_day 13 2, post_of_day 11 1], total = 3, page = 1,
            pageSize = 10, totalPages = Num 1\<rparr>"
  by (simp add: get_posts_def build_query_def no_params_def Let_def sort_posts_def
        skip_limit_def ceil_div_eval post_of_day_def stored_post_def day_def sort_before_def)

text \<open>
  C2. The items of every result are sorted by \<^verbatim>\<open>published_at\<close> descending, with
  \<^verbatim>\<open>created_at\<close> descending breaking ties, and a post without \<^verbatim>\<open>published_at\<close> comes
  after every post with one: the server's result by its sort, the client-side engine's
  because the fixture is written in that order and filtering and slicing keep it. Three
  posts published on day 1, day 3 and day 2 come back as day 3, day 2, day 1.
\<close>

theorem results_sorted:
  "(get_posts pcre store q = Inr r \<longrightarrow>
      sorted_wrt listed_before (posts r)
      \<and> (\<forall>i j. i < j \<and> j < length (posts r) \<and> published_at (posts r ! i) = None
             \<longrightarrow> published_at (posts r ! j) = None))
   \<and> (getMockPosts (mockPosts b1 b2 b3) arg = Inr r' \<longrightarrow>
      sorted_wrt listed_before (posts r')
      \<and> (\<forall>i j. i < j \<and> j < length (posts r') \<and> published_at (posts r' ! i) = None
             \<longrightarrow> published_at (posts r' ! j) = None))
   \<and> map_sum id posts (get_posts pcre [post_of_day 11 1, post_of_day 12 3, post_of_day 13 2] no_params)
       = Inr [post_of_day 12 3, post_of_day 13 2, post_of_day 11 1]"
proof (intro conjI impI)
  assume a: "get_posts pcre store q = Inr r"
  show s: "sorted_wrt listed_before (posts r)"
    using a by (rule get_posts_sorted)
  show "\<forall>i j. i < j \<and> j < length (posts r) \<and> published_at (posts r ! i) = None
             \<longrightarrow> published_at (posts r ! j) = None"
    using nulls_last[OF s] by blast
next
  assume a: "getMockPosts (mockPosts b1 b2 b3) arg = Inr r'"
  show s: "sorted_wrt listed_before (posts r')"
    using mockPosts_sorted a by (rule getMockPosts_sorted)
  show "\<forall>i j. i < j \<and> j < length (posts r') \<and> published_at (posts r' ! i) = None
             \<longrightarrow> published_at (posts r' ! j) = None"
    using nulls_last[OF s] by blast
next
  show "map_sum id posts (get_posts pcre [post_of_day 11 1, post_of_day 12 3, post_of_day 13 2] no_params)
       = Inr [post_of_day 12 3, post_of_day 13 2, post_of_day 11 1]"
    by (simp add: example_days)
qed

theorem results_sorted_witness:
  "get_posts no_pcre [post_of_day 11 1, post_of_day 12 3, post_of_day 13 2] no_params
     = Inr \<lparr>posts = [post_of_day 12 3, post_of_day 13 2, post_of_day 11 1], total = 3, page = 1,
            pageSize = 10, totalPages = Num 1\<rparr>
   \<and> sorted_wrt listed_before [post_of_day 12 3, post_of_day 13 2, post_of_day 11 1]
   \<and> (\<exists>r'. getMockPosts (mockPosts [] [] []) (Some mock_defaults) = Inr r'
           \<and> sorted_wrt listed_before (posts r'))"
proof -
  let ?r = "\<lparr>posts = [post_of_day 12 3, post_of_day 13 2, post_of_day 11 1], total = 3, page = 1,
            pageSize = 10, totalPages = Num 1\<rparr>"
  have ev: "get_posts no_pcre [post_of_day 11 1, post_of_day 12 3, post_of_day 13 2] no_params
     = Inr ?r"
    by (rule example_days)
  obtain r' where ev': "getMockPosts (mockPosts [] [] []) (Some mock_defaults) = Inr r'"
    by (simp add: getMockPosts_def Let_def)
  have 1: "sorted_wrt listed_before (posts ?r)"
    using results_sorted[of no_pcre _ no_params ?r] ev by blast
  have 2: "sorted_wrt listed_before (posts r')"
    using results_sorted[of _ _ _ _ "[]" "[]" "[]" "Some mock_defaults" r'] ev' by blast
  from ev 1 2 ev' show ?thesis by auto
qed

section \<open>The query engines: pagination\<close>

lemma ceil_div_zero: "ceil_div a 0 = (if a = 0 then NaN else Infinity)"
  by (simp add: ceil_div_def)

lemma ceil_div_pages:
  assumes "0 \<le> t" and "1 \<le> ps"
  shows "ceil_div t ps = Num \<lceil>rat_of_int t / rat_of_int ps\<rceil>"
    and "ceil_div t ps = Num 0 \<longleftrightarrow> t = 0"
proof -
  show "ceil_div t ps = Num \<lceil>rat_of_int t / rat_of_int ps\<rceil>"
    using assms by (simp add: ceil_div_def)
  have "- t div ps = 0 \<longleftrightarrow> t = 0"
  proof
    assume z: "- t div ps = 0"
    show "t = 0"
    proof (rule ccontr)
      assume "t \<noteq> 0"
      with assms have "- t < 0" by simp
      with assms(2) have "- t div ps < 0" by (simp add: div_neg_pos_less0)
      with z show False by simp
    qed
  qed simp
  with assms show "ceil_div t ps = Num 0 \<longleftrightarrow> t = 0"
    by (simp add: ceil_div_eval)
qed

lemma getMockPosts_meta:
  assumes "getMockPosts mock arg = Inr r"
  shows "totalPages r = ceil_div (total r) (pageSize r) \<and> 0 \<le> total r"
  using assms by (auto simp: getMockPosts_def Let_def split: option.splits)

lemma get_posts_meta:
  assumes "get_posts pcre store q = Inr r"
  shows "totalPages r = ceil_div (total r) (pageSize r) \<and> 0 \<le> total r"
  using assms by (auto simp: get_posts_def Let_def split: option.splits sum.splits)

text \<open>
  C3, as stated for every query result, fails for a negative page size: with
  \<^verbatim>\<open>pageSize = -10\<close> and fewer than 10 matching posts \<^verbatim>\<open>Math.ceil(total / pageSize)\<close>
  is (minus) zero although \<open>total\<close> is not, on the server and in the client-side engine.
\<close>

theorem totalPages_negative_pageSize:
  "get_posts no_pcre [stored_post] (no_params\<lparr>q_pageSize := Some (- 10)\<rparr>)
     = Inr \<lparr>posts = [stored_post], total = 1, page = 1, pageSize = - 10, totalPages = Num 0\<rparr>
   \<and> getMockPosts (mockPosts [] [] []) (Some (mock_defaults\<lparr>mq_pageSize := Some (- 10)\<rparr>))
     = Inr \<lparr>posts = [], total = 3, page = 1, pageSize = - 10, totalPages = Num 0\<rparr>"
proof -
  have server: "get_posts no_pcre [stored_post] (no_params\<lparr>q_pageSize := Some (- 10)\<rparr>)
     = Inr \<lparr>posts = [stored_post], total = 1, page = 1, pageSize = - 10, totalPages = Num 0\<rparr>"
    by (simp add: get_posts_def build_query_def no_params_def Let_def sort_posts_def
        skip_limit_def ceil_div_eval)
  have "length (mockPosts [] [] []) = 3"
    by (simp add: mockPosts_def)
  then have client: "getMockPosts (mockPosts [] [] []) (Some (mock_defaults\<lparr>mq_pageSize := Some (- 10)\<rparr>))
     = Inr \<lparr>posts = [], total = 3, page = 1, pageSize = - 10, totalPages = Num 0\<rparr>"
    by (simp add: getMockPosts_def mock_defaults_def Let_def js_slice_def ceil_div_eval)
  from server client show ?thesis by simp
qed

text \<open>
  C3, amended. For every query result with \<^verbatim>\<open>pageSize\<close> at least 1, \<^verbatim>\<open>totalPages\<close> is
  the ceiling of \<open>total / pageSize\<close>, and it is 0 exactly when \<open>total\<close> is 0; in both
  engines.
\<close>

theorem totalPages_ceiling:
  "(getMockPosts mock arg = Inr r \<and> 1 \<le> pageSize r \<longrightarrow>
      totalPages r = Num \<lceil>rat_of_int (total r) / rat_of_int (pageSize r)\<rceil>
      \<and> (totalPages r = Num 0 \<longleftrightarrow> total r = 0))
   \<and> (get_posts pcre store q = Inr r' \<and> 1 \<le> pageSize r' \<longrightarrow>
      totalPages r' = Num \<lceil>rat_of_int (total r') / rat_of_int (pageSize r')\<rceil>
      \<and> (totalPages r' = Num 0 \<longleftrightarrow> total r' = 0))"
  using getMockPosts_meta[of mock arg r] get_posts_meta[of pcre store q r']
    ceil_div_pages[of "total r" "pageSize r"] ceil_div_pages[of "total r'" "pageSize r'"]
  by auto

theorem totalPages_ceiling_witness:
  "get_posts no_pcre [post_of_day 11 1, post_of_day 12 3, post_of_day 13 2]
       (no_params\<lparr>q_pageSize := Some 2\<rparr>)
     = Inr \<lparr>posts = [post_of_day 12 3, post_of_day 13 2], total = 3, page = 1,
            pageSize = 2, totalPages = Num 2\<rparr>
   \<and> Num 2 = Num \<lceil>rat_of_int 3 / rat_of_int 2\<rceil>
   \<and> (\<exists>r. getMockPosts (mockPosts [] [] []) (Some (mock_defaults\<lparr>mq_pageSize := Some 2\<rparr>)) = Inr r
          \<and> totalPages r = Num \<lceil>rat_of_int (total r) / rat_of_int 2\<rceil> \<and> total r = 3)"
proof -
  let ?r = "\<lparr>posts = [post_of_day 12 3, post_of_day 13 2], total = 3, page = 1,
            pageSize = 2, totalPages = Num 2\<rparr>"
  have ev: "get_posts no_pcre [post_of_day 11 1, post_of_day 12 3, post_of_day 13 2]
       (no_params\<lparr>q_pageSize := Some 2\<rparr>) = Inr ?r"
    by (simp add: get_posts_def build_query_def no_params_def Let_def sort_posts_def
        skip_limit_def ceil_div_eval post_of_day_def stored_post_def day_def sort_before_def)
  obtain r where ev': "getMockPosts (mockPosts [] [] []) (Some (mock_defaults\<lparr>mq_pageSize := Some 2\<rparr>)) = Inr r"
    and m: "pageSize r = 2" "total r = 3"
    by (simp add: getMockPosts_def Let_def mock_defaults_def mockPosts_def)
  have 1: "totalPages ?r = Num \<lceil>rat_of_int (total ?r) / rat_of_int (pageSize ?r)\<rceil>"
    using totalPages_ceiling[of _ _ _ no_pcre _ _ ?r] ev by simp
  have 2: "totalPages r = Num \<lceil>rat_of_int (total r) / rat_of_int (pageSize r)\<rceil>"
    using totalPages_ceiling[of "mockPosts [] [] []" _ r] ev' m by simp
  from ev 1 2 ev' m show ?thesis by auto
qed

text \<open>
  C4, as stated, fails: no handler checks \<^verbatim>\<open>page\<close> or \<^verbatim>\<open>pageSize\<close>. The server answers
  a request with \<^verbatim>\<open>pageSize = 0\<close> with every matching post and echoes the 0; the
  client-side engine answers \<^verbatim>\<open>page = 0\<close> with an empty page and echoes the 0.
\<close>

theorem nonpositive_page_parameters_accepted:
  "get_posts no_pcre [stored_post] (no_params\<lparr>q_pageSize := Some 0\<rparr>)
     = Inr \<lparr>posts = [stored_post], total = 1, page = 1, pageSize = 0, totalPages = Infinity\<rparr>
   \<and> getMockPosts (mockPosts [] [] []) (Some (mock_defaults\<lparr>mq_page := Some 0\<rparr>))
     = Inr \<lparr>posts = [], total = 3, page = 0, pageSize = 10, totalPages = Num 1\<rparr>"
proof -
  have server: "get_posts no_pcre [stored_post] (no_params\<lparr>q_pageSize := Some 0\<rparr>)
     = Inr \<lparr>posts = [stored_post], total = 1, page = 1, pageSize = 0, totalPages = Infinity\<rparr>"
    by (simp add: get_posts_def build_query_def no_params_def Let_def sort_posts_def
        skip_limit_def ceil_div_zero)
  have "length (mockPosts [] [] []) = 3"
    by (simp add: mockPosts_def)
  then have client: "getMockPosts (mockPosts [] [] []) (Some (mock_defaults\<lparr>mq_page := Some 0\<rparr>))
     = Inr \<lparr>posts = [], total = 3, page = 0, pageSize = 10, totalPages = Num 1\<rparr>"
    by (simp add: getMockPosts_def mock_defaults_def Let_def js_slice_def ceil_div_eval)
  from server client show ?thesis by simp
qed

text \<open>
  C4, amended. Neither engine validates, clamps or normalises \<^verbatim>\<open>page\<close> and
  \<^verbatim>\<open>pageSize\<close>. The client-side engine answers every request, with the \<^verbatim>\<open>page\<close> and
  \<^verbatim>\<open>pageSize\<close> it was given (1 and 10 only when absent). The server, when the database
  accepts the search pattern, does the same as long as \<open>(page - 1) * pageSize\<close> is not
  negative, and answers 500 when it is, because the database refuses a negative skip.
\<close>

theorem page_parameters_unchecked:
  "(\<exists>r. getMockPosts mock (Some mq) = Inr r
        \<and> page r = (case mq_page mq of None \<Rightarrow> 1 | Some v \<Rightarrow> v)
        \<and> pageSize r = (case mq_pageSize mq of None \<Rightarrow> 10 | Some v \<Rightarrow> v))
   \<and> (build_query pcre q \<noteq> None \<longrightarrow>
        (let pg = (case q_page q of None \<Rightarrow> 1 | Some v \<Rightarrow> v);
             sz = (case q_pageSize q of None \<Rightarrow> 10 | Some v \<Rightarrow> v)
         in if (pg - 1) * sz < 0 then get_posts pcre store q = Inl Status500
            else \<exists>r. get_posts pcre store q = Inr r \<and> page r = pg \<and> pageSize r = sz))"
  by (auto simp: getMockPosts_def get_posts_def skip_limit_def Let_def split: option.splits)

theorem page_parameters_unchecked_witness:
  "(\<exists>r. getMockPosts (mockPosts [] [] []) (Some (mock_defaults\<lparr>mq_page := Some 0\<rparr>)) = Inr r
        \<and> page r = 0 \<and> pageSize r = 10)
   \<and> (\<exists>r. get_posts no_pcre [stored_post] (no_params\<lparr>q_pageSize := Some 0\<rparr>) = Inr r
        \<and> page r = 1 \<and> pageSize r = 0)
   \<and> get_posts no_pcre [stored_post] (no_params\<lparr>q_page := Some 0\<rparr>) = Inl Status500"
proof -
  have b: "build_query no_pcre (no_params\<lparr>q_pageSize := Some 0\<rparr>) \<noteq> None"
    "build_query no_pcre (no_params\<lparr>q_page := Some 0\<rparr>) \<noteq> None"
    by (simp_all add: build_query_def no_params_def Let_def)
  have 1: "\<exists>r. getMockPosts (mockPosts [] [] []) (Some (mock_defaults\<lparr>mq_page := Some 0\<rparr>)) = Inr r
        \<and> page r = 0 \<and> pageSize r = 10"
    using page_parameters_unchecked[of "mockPosts [] [] []" "mock_defaults\<lparr>mq_page := Some 0\<rparr>"]
    by (simp add: mock_defaults_def)
  have 2: "\<exists>r. get_posts no_pcre [stored_post] (no_params\<lparr>q_pageSize := Some 0\<rparr>) = Inr r
        \<and> page r = 1 \<and> pageSize r = 0"
    using page_parameters_unchecked[of _ _ no_pcre "no_params\<lparr>q_pageSize := Some 0\<rparr>" "[stored_post]"] b(1)
    by (simp add: no_params_def)
  have 3: "get_posts no_pcre [stored_post] (no_params\<lparr>q_page := Some 0\<rparr>) = Inl Status500"
    using page_parameters_unchecked[of _ _ no_pcre "no_params\<lparr>q_page := Some 0\<rparr>" "[stored_post]"] b(2)
    by (simp add: no_params_def)
  from 1 2 3 show ?thesis by blast
qed

section \<open>The query engines: search\<close>

lemma same_lower_map:
  "list_all2 (\<lambda>a b. lower_char a = lower_char b) xs ys \<longleftrightarrow> toLowerCase xs = toLowerCase ys"
  unfolding toLowerCase_def
  by (induction xs arbitrary: ys) (auto simp: list_all2_Cons1)

lemma ci_substring_iff: "ci_substring needle hay \<longleftrightarrow> sublist (toLowerCase needle) (toLowerCase hay)"
proof
  assume "ci_substring needle hay"
  then obtain pre mid suf where h: "hay = pre @ mid @ suf"
    and m: "toLowerCase mid = toLowerCase needle"
    by (auto simp: ci_substring_def same_lower_map)
  have "toLowerCase hay = toLowerCase pre @ toLowerCase needle @ toLowerCase suf"
    using m by (simp add: h toLowerCase_def)
  then show "sublist (toLowerCase needle) (toLowerCase hay)"
    unfolding sublist_def by blast
next
  assume "sublist (toLowerCase needle) (toLowerCase hay)"
  then obtain ps ss where "map lower_char hay = ps @ map lower_char needle @ ss"
    unfolding sublist_def toLowerCase_def by blast
  then obtain pre rest where h1: "hay = pre @ rest"
    and r: "map lower_char rest = map lower_char needle @ ss"
    by (metis map_eq_append_conv)
  from r obtain mid suf where h2: "rest = mid @ suf"
    and m: "map lower_char mid = map lower_char needle"
    by (metis map_eq_append_conv)
  from m have "list_all2 (\<lambda>a b. lower_char a = lower_char b) mid needle"
    by (simp add: same_lower_map toLowerCase_def)
  with h1 h2 show "ci_substring needle hay"
    unfolding ci_substring_def by blast
qed

lemma mock_search_hit:
  assumes "s \<noteq> []"
  shows "mock_search (toLowerCase s) p \<longleftrightarrow> search_hit s p"
proof -
  have "\<not> sublist (toLowerCase s) []"
    using assms by (simp add: toLowerCase_def)
  then show ?thesis
    by (cases "excerpt p")
       (auto simp: mock_search_def search_hit_def js_includes_def ci_substring_iff toLowerCase_def)
qed

lemma js_slice_all: "int (length xs) \<le> n \<Longrightarrow> js_slice xs 0 n = xs"
  by (simp add: js_slice_def Let_def)

text \<open>
  The client-side engine searches as the specification says: with a non-empty search
  text (and no tag filter, on one page that holds the whole fixture) its result is the
  posts in which the text occurs, letter case apart, in the title, the content or the
  excerpt; without a search text it is every post.
\<close>

lemma getMockPosts_search:
  assumes "getMockPosts mock (Some q) = Inr r" and "mq_tags q = None"
    and "mq_page q = None" and "mq_pageSize q = Some n" and "int (length mock) \<le> n"
  shows "mq_search q = Some s \<and> s \<noteq> [] \<longrightarrow> posts r = filter (search_hit s) mock"
    and "\<not> truthy_str (mq_search q) \<longrightarrow> posts r = mock"
proof -
  have len: "int (length (filter P mock)) \<le> n" for P
    using assms(5) length_filter_le[of P mock] by linarith
  show "mq_search q = Some s \<and> s \<noteq> [] \<longrightarrow> posts r = filter (search_hit s) mock"
    using assms len[of "mock_search (toLowerCase s)"] mock_search_hit[of s]
    by (auto simp: getMockPosts_def Let_def js_slice_all cong: filter_cong)
  show "\<not> truthy_str (mq_search q) \<longrightarrow> posts r = mock"
    using assms by (auto simp: getMockPosts_def Let_def js_slice_all)
qed

lemma rx_tokens_plain: "\<forall>c \<in> set s. \<not> rx_meta c \<Longrightarrow> rx_tokens s = Some (map Lit s)"
  by (induction s) (auto simp: rx_meta_def)

lemma rx_prefix_plain: "rx_prefix (map Lit s) h \<longleftrightarrow> prefix (toLowerCase s) (toLowerCase h)"
  by (induction "map Lit s" h arbitrary: s rule: rx_prefix.induct) (auto simp: toLowerCase_def)

lemma rx_search_plain: "rx_search (map Lit s) h \<longleftrightarrow> sublist (toLowerCase s) (toLowerCase h)"
proof (induction h)
  case Nil
  show ?case by (cases s) (auto simp: toLowerCase_def)
next
  case (Cons d ds)
  have "rx_search (map Lit s) (d # ds)
          \<longleftrightarrow> prefix (toLowerCase s) (toLowerCase (d # ds)) \<or> sublist (toLowerCase s) (toLowerCase ds)"
    using Cons by (simp add: rx_prefix_plain)
  then show ?case
    by (simp add: toLowerCase_def sublist_Cons_right)
qed

text \<open>
  So does the server for a search text without a character that the database's regular
  expressions read as an operator.
\<close>

lemma regex_plain_text:
  assumes "\<forall>c \<in> set s. \<not> rx_meta c"
  shows "\<exists>m. regex_i pcre s = Some m \<and> (\<forall>h. m h = ci_substring s h)"
  using assms by (simp add: regex_i_def rx_tokens_plain rx_search_plain ci_substring_iff)

text \<open>
  C1. The claim: with a non-empty search text, a post is in the result exactly when the
  text occurs, letter case apart, in its title, content or excerpt. The server passes the
  text to the database as a regular expression, unescaped: the search text \<^verbatim>\<open>.\<close> selects
  a post that holds no dot in any of the three fields.
\<close>

theorem search_text_is_a_pattern:
  "get_posts pcre [stored_post] (no_params\<lparr>q_search := Some ''.''\<rparr>)
     = Inr \<lparr>posts = [stored_post], total = 1, page = 1, pageSize = 10, totalPages = Num 1\<rparr>
   \<and> \<not> ci_substring ''.'' (title stored_post)
   \<and> \<not> ci_substring ''.'' (content stored_post)
   \<and> excerpt stored_post = Some [] \<and> \<not> ci_substring ''.'' []"
proof -
  have m: "regex_i pcre ''.'' = Some (rx_search [Dot])"
    by (simp add: regex_i_def)
  have hit: "rx_search [Dot] ''Hello''"
    by (simp add: code_def)
  have ev: "get_posts pcre [stored_post] (no_params\<lparr>q_search := Some ''.''\<rparr>)
     = Inr \<lparr>posts = [stored_post], total = 1, page = 1, pageSize = 10, totalPages = Num 1\<rparr>"
    using hit
    by (simp add: get_posts_def build_query_def no_params_def Let_def m search_or_def
          stored_post_def sort_posts_def skip_limit_def ceil_div_eval)
  have 1: "\<not> sublist (toLowerCase ''.'') (toLowerCase ''Hello'')"
    by code_simp
  have 2: "\<not> sublist (toLowerCase ''.'') (toLowerCase ''text'')"
    by code_simp
  have 3: "\<not> sublist (toLowerCase ''.'') (toLowerCase [])"
    by code_simp
  from ev 1 2 3 show ?thesis
    by (simp add: ci_substring_iff stored_post_def)
qed

section \<open>The client-side proxy: fallback to the fixture\<close>

lemma getMockPosts_returns: "\<exists>r. getMockPosts mock (Some q) = Inr r"
  by (simp add: getMockPosts_def Let_def)

text \<open>
  \<^verbatim>\<open>getMockAllPosts\<close> calls \<^verbatim>\<open>this.getMockPosts()\<close> without the query object, which
  \<^verbatim>\<open>getMockPosts\<close> destructures: the fallback of \<^verbatim>\<open>getAllPosts\<close> and of
  \<^verbatim>\<open>getPostBySlug\<close> ends in a TypeError.
\<close>

lemma getMockAllPosts_raises: "getMockAllPosts mock = Inl TypeError"
  by (simp add: getMockAllPosts_def getMockPosts_def)

lemma getAllPosts_fallback_raises: "fetch_failed net \<Longrightarrow> getAllPosts mock net = Inl TypeError"
  by (cases net) (auto simp: getAllPosts_def getMockAllPosts_raises)

lemma getPostBySlug_fallback_raises:
  "fetch_failed net \<Longrightarrow> (\<forall>body. net \<noteq> HttpResponse 404 body) \<Longrightarrow>
     getPostBySlug mock net s = Inl TypeError"
  by (cases net) (auto simp: getPostBySlug_def getMockPostBySlug_def getMockAllPosts_raises)

text \<open>
  \<^verbatim>\<open>getPosts\<close> passes the query object on, and its fallback works: whenever its network
  call fails or its response is not 2xx, it returns what the fixture gives for the same
  page, page size, search text and tags, and no error reaches its caller.
  \<^verbatim>\<open>getPostBySlug\<close> has a guard of its own for a 404 response, which it answers with null
  (post not found) without the fixture.
\<close>

lemma getPosts_falls_back:
  "(fetch_failed net \<longrightarrow>
      getPosts mock net q =
        getMockPosts mock
          (Some \<lparr>mq_page = Some (case mq_page q of None \<Rightarrow> 1 | Some v \<Rightarrow> v),
                 mq_pageSize = Some (case mq_pageSize q of None \<Rightarrow> 10 | Some v \<Rightarrow> v),
                 mq_search = mq_search q, mq_tags = mq_tags q\<rparr>)
      \<and> (\<exists>r. getPosts mock net q = Inr r))
   \<and> getPostBySlug mock (HttpResponse 404 body) s = Inr None"
proof (intro conjI impI)
  assume f: "fetch_failed net"
  then show eq: "getPosts mock net q =
        getMockPosts mock
          (Some \<lparr>mq_page = Some (case mq_page q of None \<Rightarrow> 1 | Some v \<Rightarrow> v),
                 mq_pageSize = Some (case mq_pageSize q of None \<Rightarrow> 10 | Some v \<Rightarrow> v),
                 mq_search = mq_search q, mq_tags = mq_tags q\<rparr>)"
    by (cases net) (simp_all add: getPosts_def Let_def)
  show "\<exists>r. getPosts mock net q = Inr r"
    unfolding eq by (rule getMockPosts_returns)
next
  show "getPostBySlug mock (HttpResponse 404 body) s = Inr None"
    by (simp add: getPostBySlug_def)
qed

lemma getPosts_falls_back_example:
  "fetch_failed (HttpResponse 500 None :: response fetch_result)
   \<and> getPosts (mockPosts [] [] []) (HttpResponse 500 None) mock_defaults =
       getMockPosts (mockPosts [] [] [])
         (Some \<lparr>mq_page = Some 1, mq_pageSize = Some 10, mq_search = None, mq_tags = None\<rparr>)
   \<and> (\<exists>r. getPosts (mockPosts [] [] []) (HttpResponse 500 None) mock_defaults = Inr r)
   \<and> getPostBySlug (mockPosts [] [] []) (HttpResponse 404 None) ''art-of-database-design'' = Inr None"
proof -
  have f: "fetch_failed (HttpResponse 500 None :: response fetch_result)"
    by (simp add: response_ok_def)
  have "case_option 1 (\<lambda>v. v) (mq_page mock_defaults) = (1::int)"
    and "case_option 10 (\<lambda>v. v) (mq_pageSize mock_defaults) = (10::int)"
    and "mq_search mock_defaults = None" and "mq_tags mock_defaults = None"
    by (simp_all add: mock_defaults_def)
  with getPosts_falls_back[of "HttpResponse 500 None" "mockPosts [] [] []" mock_defaults None
      "''art-of-database-design''"] f
  show ?thesis by metis
qed

text \<open>
  C9. The claim: whenever the network call of a read operation fails or its response is
  not 2xx, the proxy returns the result computed from the fixture and no error reaches
  the caller. \<^verbatim>\<open>getAllPosts\<close> with a failed network call, and \<^verbatim>\<open>getPostBySlug\<close> with a
  500 response for a slug that the fixture holds: both reach
  \<^verbatim>\<open>this.getMockPosts()\<close>, called without the query object, and the TypeError goes to
  the caller, whatever the three Markdown bodies are.
\<close>

theorem read_fallback_raises_TypeError:
  "getAllPosts (mockPosts body1 body2 body3) NetworkError = Inl TypeError
   \<and> getPostBySlug (mockPosts body1 body2 body3) (HttpResponse 500 None)
        ''art-of-database-design'' = Inl TypeError
   \<and> map slug (mockPosts body1 body2 body3) =
       [''getting-started-modern-web-development'', ''art-of-database-design'',
        ''building-responsive-user-interfaces'']"
proof -
  have 1: "getAllPosts (mockPosts body1 body2 body3) NetworkError = Inl TypeError"
    by (simp add: getAllPosts_def getMockAllPosts_def getMockPosts_def)
  have 2: "getPostBySlug (mockPosts body1 body2 body3) (HttpResponse 500 None)
        ''art-of-database-design'' = Inl TypeError"
    by (simp add: getPostBySlug_def getMockPostBySlug_def getMockAllPosts_def getMockPosts_def
          response_ok_def)
  have 3: "map slug (mockPosts body1 body2 body3) =
       [''getting-started-modern-web-development'', ''art-of-database-design'',
        ''building-responsive-user-interfaces'']"
    by (simp add: mockPosts_def)
  from 1 2 3 show ?thesis by simp
qed

end
